theory Spec2Isabelle
  imports Complex_Main
begin

section \<open>Record store\<close>

text \<open>
  The memory tools of the repository (\<^verbatim>\<open>src/tools/memory/*.ts\<close>) call the class
  \<^verbatim>\<open>MemoryManager\<close> of \<^verbatim>\<open>src/lib/MemoryManager.ts\<close>. That file is not part of the
  available sources; only its callers and the persisted table layout (README, "Database
  Schema") are. The store operations below are therefore written from the specification
  (sections 3, 4.1, 4.2 and 4.3), and each such definition says so.

  Time is an explicit argument: every operation that reads the clock takes the instant
  \<open>now\<close> at which it runs.
\<close>

type_synonym time = nat

text \<open>
  Modelled from the spec: the record type (its declaration is in a missing file). Section 3,
  and one row of the table
  \<^verbatim>\<open>memories(key, value, category, timestamp, lastAccessed, priority)\<close> of section 6 and
  of the README. The field \<^verbatim>\<open>value\<close> is called \<open>rvalue\<close> here.
\<close>

record MemoryRecord =
  key :: string
  rvalue :: string
  category :: string
  timestamp :: time
  lastAccessed :: time
  priority :: int

text \<open>
  Modelled from the spec: the relation type (its declaration is in a missing file). Section
  3, and one row of the table \<^verbatim>\<open>memory_relations(id, sourceKey, targetKey, relationType,
  strength, metadata, timestamp)\<close>; the relation's \<^verbatim>\<open>timestamp\<close> is called \<open>created\<close>.
\<close>

record MemoryRelation =
  rel_id :: nat
  sourceKey :: string
  targetKey :: string
  relationType :: string
  strength :: rat
  metadata :: "string option"
  created :: time

text \<open>
  Modelled from the spec: the storage handle owned by the facade (section 4.6), that is, both
  tables of section 6 and the autoincrement counter of the relation ids.
\<close>

record store =
  memories :: "string \<rightharpoonup> MemoryRecord"
  relations :: "MemoryRelation list"
  next_id :: nat

definition empty_store :: store where
  "empty_store = \<lparr>memories = Map.empty, relations = [], next_id = 1\<rparr>"

text \<open>
  Modelled from the spec: \<^verbatim>\<open>MemoryManager.save\<close> (source file missing). Section 4.1:
  "inserts or overwrites (upsert on key). Sets timestamp=lastAccessed=now on insert; on
  overwrite, preserves original timestamp, updates value/category, refreshes lastAccessed.
  Never fails on duplicate key". A new record gets the default priority 0 of section 3.
\<close>

definition save :: "string \<Rightarrow> string \<Rightarrow> string \<Rightarrow> time \<Rightarrow> store \<Rightarrow> store" where
  "save k v c now s =
     (case memories s k of
        None \<Rightarrow>
          s\<lparr>memories := (memories s)(k \<mapsto>
              \<lparr>key = k, rvalue = v, category = c, timestamp = now,
               lastAccessed = now, priority = 0\<rparr>)\<rparr>
      | Some r \<Rightarrow>
          s\<lparr>memories := (memories s)(k \<mapsto>
              r\<lparr>rvalue := v, category := c, lastAccessed := now\<rparr>)\<rparr>)"

text \<open>
  Modelled from the spec: \<^verbatim>\<open>MemoryManager.recall\<close> (source file missing). Section 4.1:
  "on hit, updates lastAccessed as a side effect and returns the record; on miss, returns
  a distinguished not-found result (not an exception)". The miss is \<open>None\<close>.
\<close>

definition recall :: "string \<Rightarrow> time \<Rightarrow> store \<Rightarrow> MemoryRecord option \<times> store" where
  "recall k now s =
     (case memories s k of
        None \<Rightarrow> (None, s)
      | Some r \<Rightarrow>
          (let r' = r\<lparr>lastAccessed := now\<rparr>
           in (Some r', s\<lparr>memories := (memories s)(k \<mapsto> r')\<rparr>)))"

section \<open>Properties of the record store\<close>

lemma memories_save_same:
  "memories (save k v c now s) k =
     Some (case memories s k of
             None \<Rightarrow> \<lparr>key = k, rvalue = v, category = c, timestamp = now,
                       lastAccessed = now, priority = 0\<rparr>
           | Some r \<Rightarrow> r\<lparr>rvalue := v, category := c, lastAccessed := now\<rparr>)"
  by (simp add: save_def split: option.split)

lemma memories_save_other:
  "k' \<noteq> k \<Longrightarrow> memories (save k v c now s) k' = memories s k'"
  by (simp add: save_def split: option.split)

text \<open>
  C1. Round trip of save then recall: after \<open>save k v c\<close>, whatever the store held before
  and whenever the two operations run, \<open>recall k\<close> hits, and the record it returns has
  value \<open>v\<close> and category \<open>c\<close>.
\<close>

theorem save_recall_roundtrip:
  "\<exists>r s'. recall k t' (save k v c t s) = (Some r, s') \<and> rvalue r = v \<and> category r = c"
  by (simp add: recall_def memories_save_same Let_def split: option.split)

text \<open>
  C5. Saving again under a key that is already stored keeps the record's creation
  timestamp and replaces value, category and lastAccessed.
\<close>

theorem resave_preserves_timestamp:
  assumes "memories s k = Some r0"
  shows "\<exists>r. memories (save k v' c' now s) k = Some r \<and> timestamp r = timestamp r0 \<and>
           rvalue r = v' \<and> category r = c' \<and> lastAccessed r = now"
  using assms by (simp add: memories_save_same)

theorem resave_preserves_timestamp_witness:
  "memories (save ''k'' ''old'' ''notes'' 3 empty_store) ''k'' =
     Some \<lparr>key = ''k'', rvalue = ''old'', category = ''notes'', timestamp = 3,
           lastAccessed = 3, priority = 0\<rparr> \<and>
   (\<exists>r. memories (save ''k'' ''new'' ''code'' 8 (save ''k'' ''old'' ''notes'' 3 empty_store)) ''k''
          = Some r \<and> timestamp r = 3 \<and> rvalue r = ''new'' \<and> category r = ''code'' \<and>
          lastAccessed r = 8)"
proof -
  have h: "memories (save ''k'' ''old'' ''notes'' 3 empty_store) ''k'' =
     Some \<lparr>key = ''k'', rvalue = ''old'', category = ''notes'', timestamp = 3,
           lastAccessed = 3, priority = 0\<rparr>"
    by (simp add: save_def empty_store_def)
  show ?thesis
    using h resave_preserves_timestamp [OF h, of "''new''" "''code''" 8] by simp
qed

section \<open>Relation store\<close>

text \<open>The error taxonomy of specification section 7.\<close>

datatype store_error = NotFound | InvalidReference | StorageUnavailable | MigrationFailure

text \<open>The uniqueness key of an edge: \<^verbatim>\<open>UNIQUE(sourceKey, targetKey, relationType)\<close>.\<close>

definition same_triple :: "string \<Rightarrow> string \<Rightarrow> string \<Rightarrow> MemoryRelation \<Rightarrow> bool" where
  "same_triple a b t e \<longleftrightarrow> sourceKey e = a \<and> targetKey e = b \<and> relationType e = t"

text \<open>
  Modelled from the spec: \<^verbatim>\<open>MemoryManager.link\<close> (source file missing). Section 4.2:
  "upsert on the unique triple; fails with InvalidReference if either key is syntactically
  empty (referential existence is NOT required)". Section 3: "re-linking the same pair with
  the same type updates rather than duplicates". An update replaces strength and metadata
  of the existing row and keeps its id and creation time; an insert appends a row with the
  next autoincrement id.
\<close>

definition link ::
  "string \<Rightarrow> string \<Rightarrow> string \<Rightarrow> rat \<Rightarrow> string option \<Rightarrow> time \<Rightarrow> store \<Rightarrow> store_error + store" where
  "link a b t w md now s =
     (if a = [] \<or> b = [] then Inl InvalidReference
      else if list_ex (same_triple a b t) (relations s)
      then Inr (s\<lparr>relations :=
                  map (\<lambda>e. if same_triple a b t e then e\<lparr>strength := w, metadata := md\<rparr> else e)
                      (relations s)\<rparr>)
      else Inr (s\<lparr>relations := relations s @
                    [\<lparr>rel_id = next_id s, sourceKey = a, targetKey = b, relationType = t,
                      strength = w, metadata = md, created = now\<rparr>],
                  next_id := Suc (next_id s)\<rparr>))"

text \<open>
  A sequence of link calls against one store. A call that fails (\<open>InvalidReference\<close>)
  leaves the store as it was, and the sequence goes on.
\<close>

record link_call =
  lc_source :: string
  lc_target :: string
  lc_type :: string
  lc_strength :: rat
  lc_metadata :: "string option"
  lc_now :: time

definition link_step :: "link_call \<Rightarrow> store \<Rightarrow> store" where
  "link_step c s =
     (case link (lc_source c) (lc_target c) (lc_type c) (lc_strength c) (lc_metadata c) (lc_now c) s of
        Inl _ \<Rightarrow> s
      | Inr s' \<Rightarrow> s')"

fun run_links :: "link_call list \<Rightarrow> store \<Rightarrow> store" where
  "run_links [] s = s"
| "run_links (c # cs) s = run_links cs (link_step c s)"

text \<open>The invariant: no two stored edges share their triple.\<close>

definition triple_of :: "MemoryRelation \<Rightarrow> string \<times> string \<times> string" where
  "triple_of e = (sourceKey e, targetKey e, relationType e)"

definition unique_triples :: "store \<Rightarrow> bool" where
  "unique_triples s \<longleftrightarrow> distinct (map triple_of (relations s))"

definition triple_count :: "string \<Rightarrow> string \<Rightarrow> string \<Rightarrow> store \<Rightarrow> nat" where
  "triple_count a b t s = length (filter (same_triple a b t) (relations s))"

subsection \<open>Uniqueness of the edge triple\<close>

lemma same_triple_iff: "same_triple a b t e \<longleftrightarrow> triple_of e = (a, b, t)"
  by (auto simp: same_triple_def triple_of_def)

lemma triple_of_update [simp]:
  "triple_of (e\<lparr>strength := w, metadata := md\<rparr>) = triple_of e"
  by (simp add: triple_of_def)

lemma triple_of_upsert:
  "triple_of \<circ> (\<lambda>e. if P e then e\<lparr>strength := w, metadata := md\<rparr> else e) = triple_of"
  by (auto simp: fun_eq_iff)

lemma list_ex_same_triple:
  "list_ex (same_triple a b t) es \<longleftrightarrow> (a, b, t) \<in> set (map triple_of es)"
  by (force simp: list_ex_iff same_triple_iff)

lemma triple_of_new [simp]:
  "triple_of \<lparr>rel_id = i, sourceKey = a, targetKey = b, relationType = t,
               strength = w, metadata = md, created = now\<rparr> = (a, b, t)"
  by (simp add: triple_of_def)

lemma link_unique:
  assumes "unique_triples s" and "link a b t w md now s = Inr s'"
  shows "unique_triples s'"
  using assms
  by (auto simp: link_def unique_triples_def triple_of_upsert list_ex_same_triple
           split: if_splits)

lemma link_step_unique: "unique_triples s \<Longrightarrow> unique_triples (link_step c s)"
  by (auto simp: link_step_def split: sum.splits dest: link_unique)

lemma run_links_unique: "unique_triples s \<Longrightarrow> unique_triples (run_links cs s)"
  by (induction cs arbitrary: s) (simp_all add: link_step_unique)

lemma count_le_one:
  "distinct (map triple_of es) \<Longrightarrow> length (filter (same_triple a b t) es) \<le> 1"
proof (induction es)
  case Nil
  then show ?case by simp
next
  case (Cons e es)
  then show ?case
    by (auto simp: same_triple_iff filter_empty_conv image_iff)
qed

lemma unique_count_le_one: "unique_triples s \<Longrightarrow> triple_count a b t s \<le> 1"
  unfolding unique_triples_def triple_count_def by (rule count_le_one)

lemma link_present:
  assumes "a \<noteq> []" "b \<noteq> []"
  shows "\<exists>s'. link a b t w md now s = Inr s' \<and> triple_count a b t s' \<ge> 1"
proof (cases "list_ex (same_triple a b t) (relations s)")
  case True
  then obtain e where e: "e \<in> set (relations s)" "same_triple a b t e"
    by (auto simp: list_ex_iff)
  let ?f = "\<lambda>e. if same_triple a b t e then e\<lparr>strength := w, metadata := md\<rparr> else e"
  have "?f e \<in> set (map ?f (relations s))" using e(1) by simp
  moreover have "same_triple a b t (?f e)" using e(2) by (simp add: same_triple_def)
  ultimately have "filter (same_triple a b t) (map ?f (relations s)) \<noteq> []"
    by (auto simp: filter_empty_conv)
  then have "length (filter (same_triple a b t) (map ?f (relations s))) \<ge> 1"
    by (cases "filter (same_triple a b t) (map ?f (relations s))") auto
  with True assms show ?thesis
    by (simp add: link_def triple_count_def)
next
  case False
  with assms show ?thesis
    by (simp add: link_def triple_count_def same_triple_def)
qed

text \<open>
  C2. Edge-triple uniqueness is an invariant of the relation store: from a store whose
  edges have pairwise different triples (the empty store is one), any sequence of link
  calls leads to such a store again, so every triple \<open>(a, b, t)\<close> labels at most one
  edge. And when \<open>a\<close> and \<open>b\<close> are non-empty keys, linking \<open>a\<close> to \<open>b\<close> with
  the same type twice in a row (the specification's example has type \<^verbatim>\<open>related_to\<close>)
  succeeds both times and leaves exactly one edge with that triple.
\<close>

theorem link_triple_unique:
  assumes "unique_triples s"
  shows "unique_triples (run_links cs s) \<and>
         triple_count a b t (run_links cs s) \<le> 1 \<and>
         (a \<noteq> [] \<and> b \<noteq> [] \<longrightarrow>
            (\<exists>s1 s2. link a b t w1 m1 n1 (run_links cs s) = Inr s1 \<and>
                     link a b t w2 m2 n2 s1 = Inr s2 \<and>
                     triple_count a b t s2 = 1))"
proof -
  have u: "unique_triples (run_links cs s)"
    using assms by (rule run_links_unique)
  have twice: "\<exists>s1 s2. link a b t w1 m1 n1 (run_links cs s) = Inr s1 \<and>
                  link a b t w2 m2 n2 s1 = Inr s2 \<and> triple_count a b t s2 = 1"
    if ne: "a \<noteq> []" "b \<noteq> []"
  proof -
    obtain s1 where s1: "link a b t w1 m1 n1 (run_links cs s) = Inr s1"
      using link_present [OF ne] by blast
    have u1: "unique_triples s1"
      using u s1 by (rule link_unique)
    obtain s2 where s2: "link a b t w2 m2 n2 s1 = Inr s2" "triple_count a b t s2 \<ge> 1"
      using link_present [OF ne] by blast
    have "unique_triples s2"
      using u1 s2(1) by (rule link_unique)
    then have "triple_count a b t s2 \<le> 1"
      by (rule unique_count_le_one)
    with s2(2) have "triple_count a b t s2 = 1" by simp
    with s1 s2(1) show ?thesis by blast
  qed
  from u unique_count_le_one [OF u, of a b t] twice show ?thesis
    by blast
qed

definition related_ab :: link_call where
  "related_ab = \<lparr>lc_source = ''a'', lc_target = ''b'', lc_type = ''related_to'',
                 lc_strength = 1, lc_metadata = None, lc_now = 5\<rparr>"

theorem link_triple_unique_witness:
  "unique_triples empty_store \<and>
   unique_triples (run_links [related_ab, related_ab] empty_store) \<and>
   triple_count ''a'' ''b'' ''related_to'' (run_links [related_ab, related_ab] empty_store) = 1 \<and>
   ''a'' \<noteq> [] \<and> ''b'' \<noteq> [] \<and>
   (\<exists>s1 s2. link ''a'' ''b'' ''related_to'' 1 None 6
               (run_links [related_ab, related_ab] empty_store) = Inr s1 \<and>
            link ''a'' ''b'' ''related_to'' 2 None 7 s1 = Inr s2 \<and>
            triple_count ''a'' ''b'' ''related_to'' s2 = 1)"
proof -
  have h: "unique_triples empty_store"
    by (simp add: unique_triples_def empty_store_def)
  have c: "triple_count ''a'' ''b'' ''related_to''
             (run_links [related_ab, related_ab] empty_store) = 1"
    by (simp add: triple_count_def link_step_def link_def related_ab_def empty_store_def
          same_triple_def)
  show ?thesis
    using h c link_triple_unique [OF h, of "[related_ab, related_ab]" "''a''" "''b''"
        "''related_to''" 1 None 6 2 None 7]
    by simp
qed

section \<open>Graph engine\<close>

text \<open>
  The traversal of \<^verbatim>\<open>MemoryManager\<close> is in the missing source file. Section 4.3 of the
  specification describes it: "starting from rootKey, visits neighbors (both directions are
  considered unless a variant restricts to outgoing-only) up to maxDepth hops. BFS visits
  level-by-level (ties broken by relation insertion order); DFS visits depth-first. Each
  key visited at most once (cycle-safe); dangling edges (pointing to deleted records) are
  silently excluded from nodes but their absence does not abort traversal."
\<close>

text \<open>
  Modelled from the spec: the adjacency the traversal reads (source file missing). Section
  4.3, "both directions are considered", "ties broken by relation insertion order": the keys
  adjacent to \<open>k\<close> in either direction, in relation insertion order.
\<close>

definition neighbours :: "MemoryRelation list \<Rightarrow> string \<Rightarrow> string list" where
  "neighbours rels k =
     concat (map (\<lambda>e. (if sourceKey e = k then [targetKey e] else []) @
                      (if targetKey e = k then [sourceKey e] else [])) rels)"

text \<open>
  Modelled from the spec: the test for a dangling key (source file missing). Section 4.3,
  "dangling edges (pointing to deleted records)": a key is \<open>stored\<close> when the record table
  holds it.
\<close>

definition stored :: "store \<Rightarrow> string \<Rightarrow> bool" where
  "stored s k \<longleftrightarrow> memories s k \<noteq> None"

text \<open>
  Modelled from the spec: the visit of one level's candidates (source file missing). Section
  4.3, "each key visited at most once", dangling keys "silently excluded": of the
  candidates, in order and once each, those that are stored and not yet visited.
\<close>

definition fresh :: "store \<Rightarrow> string list \<Rightarrow> string list \<Rightarrow> string list" where
  "fresh s visited cands =
     fold (\<lambda>n acc. if n \<in> set visited \<or> n \<in> set acc \<or> \<not> stored s n then acc else acc @ [n])
          cands []"

text \<open>
  Modelled from the spec: the strategy \<^verbatim>\<open>bfs\<close> of \<^verbatim>\<open>traverse\<close> (source file missing).
  Section 4.3, "BFS visits level-by-level", "up to maxDepth hops": one level per unit of
  depth. \<open>frontier\<close> is the last level found, \<open>visited\<close> every key found so far, in
  visiting order.
\<close>

fun bfs :: "store \<Rightarrow> nat \<Rightarrow> string list \<Rightarrow> string list \<Rightarrow> string list" where
  "bfs s 0 frontier visited = visited"
| "bfs s (Suc d) frontier visited =
     (let next = fresh s visited (concat (map (neighbours (relations s)) frontier))
      in if next = [] then visited else bfs s d next (visited @ next))"

text \<open>
  Modelled from the spec: the strategy \<^verbatim>\<open>dfs\<close> of \<^verbatim>\<open>traverse\<close> (source file missing).
  Section 4.3, "DFS visits depth-first", "up to maxDepth hops": from \<open>k\<close>, with \<open>d\<close> hops
  left, descend into each neighbour that is stored and not yet visited.
\<close>

fun dfs :: "store \<Rightarrow> nat \<Rightarrow> string \<Rightarrow> string list \<Rightarrow> string list" where
  "dfs s 0 k visited = visited"
| "dfs s (Suc d) k visited =
     fold (\<lambda>n vis. if n \<in> set vis \<or> \<not> stored s n then vis else dfs s d n (vis @ [n]))
          (neighbours (relations s) k) visited"

datatype strategy = BFS | DFS

text \<open>
  Modelled from the spec: the type \<^verbatim>\<open>MemoryGraph\<close> (its declaration is in a missing
  file). Section 3: \<open>nodes\<close> are the record keys reached, \<open>edges\<close> "the relation set
  restricted to those nodes", \<open>clusters\<close> the connected components.
\<close>

record MemoryGraph =
  nodes :: "string list"
  edges :: "MemoryRelation list"
  clusters :: "string list list"

text \<open>
  Modelled from the spec: \<^verbatim>\<open>traverse(rootKey, maxDepth, strategy)\<close> (source file missing),
  section 4.3. Clustering is the separate operation \<^verbatim>\<open>cluster(graph)\<close> of that section,
  which nothing below depends on, so a traversal carries no clusters. A root that is not
  a stored record is not a record key, so the traversal from it has no nodes.
\<close>

definition traverse :: "store \<Rightarrow> string \<Rightarrow> nat \<Rightarrow> strategy \<Rightarrow> MemoryGraph" where
  "traverse s rootKey maxDepth strat =
     (let ns = (if stored s rootKey
                then (case strat of
                        BFS \<Rightarrow> bfs s maxDepth [rootKey] [rootKey]
                      | DFS \<Rightarrow> dfs s maxDepth rootKey [rootKey])
                else [])
      in \<lparr>nodes = ns,
          edges = filter (\<lambda>e. sourceKey e \<in> set ns \<and> targetKey e \<in> set ns) (relations s),
          clusters = []\<rparr>)"

text \<open>
  \<open>within_hops rels n a b\<close>: \<open>b\<close> can be reached from \<open>a\<close> along at most \<open>n\<close>
  relations of \<open>rels\<close>, each followed in either direction.
\<close>

fun within_hops :: "MemoryRelation list \<Rightarrow> nat \<Rightarrow> string \<Rightarrow> string \<Rightarrow> bool" where
  "within_hops rels 0 a b = (a = b)"
| "within_hops rels (Suc n) a b =
     (a = b \<or> (\<exists>c \<in> set (neighbours rels a). within_hops rels n c b))"

text \<open>The chain \<^verbatim>\<open>a --related_to--> b --depends_on--> c\<close> of specification section 8.\<close>

definition rel :: "nat \<Rightarrow> string \<Rightarrow> string \<Rightarrow> string \<Rightarrow> MemoryRelation" where
  "rel i a b t = \<lparr>rel_id = i, sourceKey = a, targetKey = b, relationType = t,
                  strength = 1, metadata = None, created = 0\<rparr>"

definition abc_store :: store where
  "abc_store =
     (save ''c'' ''z'' ''general'' 3 (save ''b'' ''y'' ''general'' 2 (save ''a'' ''x'' ''general'' 1 empty_store)))
       \<lparr>relations := [rel 1 ''a'' ''b'' ''related_to'', rel 2 ''b'' ''c'' ''depends_on''],
         next_id := 3\<rparr>"

declare within_hops.simps(2) [simp del]

subsection \<open>The depth bound of traversal\<close>

lemma within_hops_refl: "within_hops rels n a a"
  by (cases n) (simp_all add: within_hops.simps(2))

lemma within_hops_SucI:
  "c \<in> set (neighbours rels a) \<Longrightarrow> within_hops rels n c b \<Longrightarrow> within_hops rels (Suc n) a b"
  by (auto simp: within_hops.simps(2))

lemma within_hops_SucE:
  assumes "within_hops rels (Suc n) a b"
  obtains "a = b" | c where "c \<in> set (neighbours rels a)" "within_hops rels n c b"
  using assms by (auto simp: within_hops.simps(2))

lemma within_hops_Suc: "within_hops rels n a b \<Longrightarrow> within_hops rels (Suc n) a b"
proof (induction n arbitrary: a)
  case 0
  then show ?case by (simp add: within_hops_refl)
next
  case (Suc n)
  from Suc.prems show ?case
  proof (cases rule: within_hops_SucE)
    case 1
    then show ?thesis by (simp add: within_hops_refl)
  next
    case (2 c)
    from 2(1) Suc.IH [OF 2(2)] show ?thesis by (rule within_hops_SucI)
  qed
qed

lemma within_hops_mono: "n \<le> m \<Longrightarrow> within_hops rels n a b \<Longrightarrow> within_hops rels m a b"
proof (induction m)
  case 0
  then show ?case by simp
next
  case (Suc m)
  show ?case
  proof (cases "n = Suc m")
    case True
    with Suc.prems show ?thesis by simp
  next
    case False
    with Suc.prems have "n \<le> m" by simp
    from Suc.IH [OF this Suc.prems(2)] show ?thesis by (rule within_hops_Suc)
  qed
qed

lemma within_hops_step:
  "within_hops rels n a b \<Longrightarrow> c \<in> set (neighbours rels b) \<Longrightarrow> within_hops rels (Suc n) a c"
proof (induction n arbitrary: a)
  case 0
  then have "a = b" by simp
  with 0(2) show ?case
    using within_hops_SucI [of c rels a 0 c] by simp
next
  case (Suc n)
  from Suc.prems(1) show ?case
  proof (cases rule: within_hops_SucE)
    case 1
    with Suc.prems(2) have "c \<in> set (neighbours rels a)" by simp
    then show ?thesis using within_hops_refl by (rule within_hops_SucI)
  next
    case (2 x)
    from 2(1) Suc.IH [OF 2(2) Suc.prems(2)] show ?thesis by (rule within_hops_SucI)
  qed
qed

lemma set_fold_fresh:
  "set (fold (\<lambda>n acc. if n \<in> set visited \<or> n \<in> set acc \<or> \<not> stored s n then acc else acc @ [n])
          cands acc0) \<subseteq> set acc0 \<union> set cands"
proof (induction cands arbitrary: acc0)
  case Nil
  then show ?case by simp
next
  case (Cons c cands)
  show ?case
    using Cons.IH [of acc0] Cons.IH [of "acc0 @ [c]"] by auto
qed

lemma set_fresh: "set (fresh s visited cands) \<subseteq> set cands"
  using set_fold_fresh [of visited s cands "[]"] by (simp add: fresh_def)

lemma bfs_bound:
  assumes "\<forall>x \<in> set frontier. within_hops (relations s) j r x"
      and "\<forall>x \<in> set visited. within_hops (relations s) j r x"
  shows "\<forall>x \<in> set (bfs s d frontier visited). within_hops (relations s) (j + d) r x"
  using assms
proof (induction d arbitrary: frontier visited j)
  case 0
  then show ?case by simp
next
  case (Suc d)
  let ?next = "fresh s visited (concat (map (neighbours (relations s)) frontier))"
  have nxt: "\<forall>x \<in> set ?next. within_hops (relations s) (Suc j) r x"
  proof
    fix x assume "x \<in> set ?next"
    then have "x \<in> set (concat (map (neighbours (relations s)) frontier))"
      using set_fresh by blast
    then obtain f where f: "f \<in> set frontier" "x \<in> set (neighbours (relations s) f)"
      by auto
    from Suc.prems(1) f(1) have "within_hops (relations s) j r f" by blast
    then show "within_hops (relations s) (Suc j) r x"
      using f(2) by (rule within_hops_step)
  qed
  have vis: "\<forall>x \<in> set visited. within_hops (relations s) (Suc j) r x"
    using Suc.prems(2) within_hops_Suc by blast
  show ?case
  proof (cases "?next = []")
    case True
    have "\<forall>x \<in> set visited. within_hops (relations s) (j + Suc d) r x"
      using Suc.prems(2) within_hops_mono [of j "j + Suc d"] by auto
    with True show ?thesis by simp
  next
    case False
    have "\<forall>x \<in> set (visited @ ?next). within_hops (relations s) (Suc j) r x"
      using nxt vis by auto
    from Suc.IH [OF nxt this] False show ?thesis by (simp add: Let_def)
  qed
qed

lemma dfs_bound:
  assumes "within_hops (relations s) j r k"
      and "\<forall>x \<in> set visited. within_hops (relations s) (j + d) r x"
  shows "\<forall>x \<in> set (dfs s d k visited). within_hops (relations s) (j + d) r x"
  using assms
proof (induction d arbitrary: k visited j)
  case 0
  then show ?case by simp
next
  case (Suc d)
  have inner: "\<forall>x \<in> set (fold (\<lambda>n vis. if n \<in> set vis \<or> \<not> stored s n then vis
                                         else dfs s d n (vis @ [n])) ns vis0).
                 within_hops (relations s) (j + Suc d) r x"
    if "set ns \<subseteq> set (neighbours (relations s) k)"
       "\<forall>x \<in> set vis0. within_hops (relations s) (j + Suc d) r x" for ns vis0
    using that
  proof (induction ns arbitrary: vis0)
    case Nil
    then show ?case by simp
  next
    case (Cons n ns)
    have n: "within_hops (relations s) (Suc j) r n"
      using Suc.prems(1) Cons.prems(1) by (auto intro: within_hops_step)
    have n': "within_hops (relations s) (Suc j + d) r n"
      using n within_hops_mono [of "Suc j" "Suc j + d"] by auto
    have step: "\<forall>x \<in> set (if n \<in> set vis0 \<or> \<not> stored s n then vis0 else dfs s d n (vis0 @ [n])).
                   within_hops (relations s) (j + Suc d) r x"
    proof (cases "n \<in> set vis0 \<or> \<not> stored s n")
      case True
      then show ?thesis using Cons.prems(2) by simp
    next
      case False
      have "\<forall>x \<in> set (vis0 @ [n]). within_hops (relations s) (Suc j + d) r x"
        using Cons.prems(2) n' by auto
      from Suc.IH [OF n this] False show ?thesis by simp
    qed
    from Cons.prems(1) have "set ns \<subseteq> set (neighbours (relations s) k)" by simp
    from Cons.IH [OF this step] show ?case by simp
  qed
  from inner [OF subset_refl Suc.prems(2)] show ?case by simp
qed

lemma traverse_nodes_bound:
  "\<forall>n \<in> set (nodes (traverse s rootKey d strat)). within_hops (relations s) d rootKey n"
proof (cases "stored s rootKey")
  case False
  then show ?thesis by (simp add: traverse_def)
next
  case True
  have r0: "\<forall>x \<in> set [rootKey]. within_hops (relations s) 0 rootKey x" by simp
  have rd: "\<forall>x \<in> set [rootKey]. within_hops (relations s) (0 + d) rootKey x"
    by (simp add: within_hops_refl)
  have r1: "within_hops (relations s) 0 rootKey rootKey" by simp
  show ?thesis
  proof (cases strat)
    case BFS
    with True bfs_bound [OF r0 r0, of d] show ?thesis by (simp add: traverse_def Let_def)
  next
    case DFS
    with True dfs_bound [OF r1 rd] show ?thesis by (simp add: traverse_def Let_def)
  qed
qed

lemma traverse_chain_depth1:
  assumes "stored s a" "stored s b" "a \<noteq> b" "b \<noteq> c" "a \<noteq> c"
      and "map triple_of (relations s) = [(a, b, t1), (b, c, t2)]"
  shows "nodes (traverse s a 1 strat) = [a, b]"
proof -
  from assms(6) obtain e1 e2 where es: "relations s = [e1, e2]"
    "triple_of e1 = (a, b, t1)" "triple_of e2 = (b, c, t2)"
    by (auto simp: map_eq_Cons_conv)
  have nb: "neighbours (relations s) a = [b]"
    using es assms(3,4,5) by (auto simp: neighbours_def triple_of_def)
  show ?thesis
    using assms(1,2,3) nb
    by (cases strat) (simp_all add: traverse_def fresh_def Let_def)
qed

text \<open>
  C4. Traversal depth is a hard bound: whatever the store, the root, the depth \<open>d\<close> and
  the strategy, every node of \<open>traverse s rootKey d\<close> is within \<open>d\<close> hops of the root.
  In particular, when the relations are exactly \<open>a \<rightarrow> b\<close> and \<open>b \<rightarrow> c\<close> between three
  different keys, with \<open>a\<close> and \<open>b\<close> stored, the traversal from \<open>a\<close> with depth 1
  yields the nodes \<open>a, b\<close> and not \<open>c\<close>.
\<close>

theorem traverse_depth_bound:
  "(\<forall>n \<in> set (nodes (traverse s rootKey d strat)). within_hops (relations s) d rootKey n) \<and>
   (stored s a \<and> stored s b \<and> a \<noteq> b \<and> b \<noteq> c \<and> a \<noteq> c \<and>
    map triple_of (relations s) = [(a, b, t1), (b, c, t2)] \<longrightarrow>
      nodes (traverse s a 1 strat) = [a, b] \<and> c \<notin> set (nodes (traverse s a 1 strat)))"
  using traverse_nodes_bound [of s rootKey d strat] traverse_chain_depth1 [of s a b c t1 t2 strat]
  by auto

theorem traverse_depth_bound_witness:
  "stored abc_store ''a'' \<and> stored abc_store ''b'' \<and> ''a'' \<noteq> ''b'' \<and> ''b'' \<noteq> ''c'' \<and>
   ''a'' \<noteq> ''c'' \<and>
   map triple_of (relations abc_store) =
     [(''a'', ''b'', ''related_to''), (''b'', ''c'', ''depends_on'')] \<and>
   nodes (traverse abc_store ''a'' 1 BFS) = [''a'', ''b''] \<and>
   ''c'' \<notin> set (nodes (traverse abc_store ''a'' 1 BFS)) \<and>
   within_hops (relations abc_store) 1 ''a'' ''b'' \<and>
   \<not> within_hops (relations abc_store) 1 ''a'' ''c''"
proof -
  have hyps: "stored abc_store ''a'' \<and> stored abc_store ''b'' \<and> ''a'' \<noteq> ''b'' \<and>
      ''b'' \<noteq> ''c'' \<and> ''a'' \<noteq> ''c'' \<and>
      map triple_of (relations abc_store) =
        [(''a'', ''b'', ''related_to''), (''b'', ''c'', ''depends_on'')]"
    by (simp add: abc_store_def stored_def save_def empty_store_def rel_def triple_of_def)
  have far: "\<not> within_hops (relations abc_store) 1 ''a'' ''c''"
    by (simp add: abc_store_def rel_def neighbours_def within_hops.simps(2))
  note t = traverse_depth_bound [of abc_store "''a''" 1 BFS "''a''" "''b''" "''c''"
      "''related_to''" "''depends_on''"]
  from t hyps have ex: "nodes (traverse abc_store ''a'' 1 BFS) = [''a'', ''b''] \<and>
      ''c'' \<notin> set (nodes (traverse abc_store ''a'' 1 BFS))"
    by blast
  from t have "\<forall>n \<in> set (nodes (traverse abc_store ''a'' 1 BFS)).
      within_hops (relations abc_store) 1 ''a'' n"
    by blast
  with ex have "within_hops (relations abc_store) 1 ''a'' ''b''" by simp
  with hyps far ex show ?thesis by blast
qed

section \<open>Memory tools\<close>

text \<open>
  The tools \<^verbatim>\<open>saveMemory\<close> (\<^verbatim>\<open>src/tools/memory/saveMemory.ts\<close>) and \<^verbatim>\<open>recallMemory\<close>
  (\<^verbatim>\<open>src/tools/memory/recallMemory.ts\<close>) are modelled from their source.

  What a JavaScript \<^verbatim>\<open>catch\<close> clause can receive: an \<^verbatim>\<open>Error\<close> object, of which the
  tools read the \<^verbatim>\<open>message\<close>, or any other thrown value. \<open>error_message\<close> is the
  expression \<^verbatim>\<open>error instanceof Error ? error.message : 'Unknown error'\<close>.
\<close>

datatype thrown = JsError string | NonError

definition error_message :: "thrown \<Rightarrow> string" where
  "error_message error = (case error of JsError message \<Rightarrow> message | NonError \<Rightarrow> ''Unknown error'')"

text \<open>
  \<^verbatim>\<open>ToolResult\<close>: every result the two tools build is
  \<^verbatim>\<open>{ content: [{ type: 'text', text: ... }] }\<close>.
\<close>

datatype content_item = TextContent string

record ToolResult =
  content :: "content_item list"

text \<open>
  The class \<^verbatim>\<open>MemoryManager\<close> is imported from a file that is not available, so the tools
  take it as a parameter: the three calls they make, each over a storage state \<open>'st\<close>,
  each either returning or throwing. \<open>getInstance\<close> is the static accessor of the
  singleton (which opens the storage on first use), \<open>mgr_save\<close> and \<open>mgr_recall\<close> are the
  methods \<^verbatim>\<open>save\<close> and \<^verbatim>\<open>recall\<close>; \<^verbatim>\<open>recall\<close> returns the record or a falsy value,
  \<open>None\<close> here.
\<close>

record 'st MemoryManager =
  getInstance :: "'st \<Rightarrow> (thrown + unit) \<times> 'st"
  mgr_save :: "string \<Rightarrow> string \<Rightarrow> string \<Rightarrow> 'st \<Rightarrow> (thrown + unit) \<times> 'st"
  mgr_recall :: "string \<Rightarrow> 'st \<Rightarrow> (thrown + MemoryRecord option) \<times> 'st"

text \<open>
  Texts are byte strings in UTF-8: the ballot mark U+2717 and the check mark U+2713 that
  open the tools' messages are three bytes each.
\<close>

definition cross_mark :: string where
  "cross_mark = [CHR 0xE2, CHR 0x9C, CHR 0x97]"

definition check_mark :: string where
  "check_mark = [CHR 0xE2, CHR 0x9C, CHR 0x93]"

definition newline :: string where
  "newline = [CHR 0x0A]"

definition text_result :: "string \<Rightarrow> ToolResult" where
  "text_result t = \<lparr>content = [TextContent t]\<rparr>"

definition error_result :: "thrown \<Rightarrow> ToolResult" where
  "error_result error = text_result (cross_mark @ '' Error: '' @ error_message error)"

text \<open>
  A \<^verbatim>\<open>ToolDefinition\<close>, as far as dispatch and validation read it: the name and, of the
  \<^verbatim>\<open>inputSchema\<close>, each property's type and optional \<^verbatim>\<open>enum\<close>, and the required
  properties. Descriptions and annotations are free text for the client and are left out.
\<close>

record property_schema =
  ps_type :: string
  ps_enum :: "string list option"

record ToolDefinition =
  td_name :: string
  properties :: "(string \<times> property_schema) list"
  required :: "string list"

definition saveMemoryDefinition :: ToolDefinition where
  "saveMemoryDefinition =
     \<lparr>td_name = ''save_memory'',
      properties =
        [(''key'', \<lparr>ps_type = ''string'', ps_enum = None\<rparr>),
         (''value'', \<lparr>ps_type = ''string'', ps_enum = None\<rparr>),
         (''category'', \<lparr>ps_type = ''string'',
                         ps_enum = Some [''project'', ''personal'', ''code'', ''notes'']\<rparr>)],
      required = [''key'', ''value'']\<rparr>"

definition recallMemoryDefinition :: ToolDefinition where
  "recallMemoryDefinition =
     \<lparr>td_name = ''recall_memory'',
      properties =
        [(''key'', \<lparr>ps_type = ''string'', ps_enum = None\<rparr>),
         (''category'', \<lparr>ps_type = ''string'', ps_enum = None\<rparr>)],
      required = [''key'']\<rparr>"

text \<open>
  Whether the input schema of a definition admits the value \<open>v\<close> for the string property
  \<open>p\<close>: a property with an \<^verbatim>\<open>enum\<close> admits its members only.
\<close>

definition schema_admits :: "ToolDefinition \<Rightarrow> string \<Rightarrow> string \<Rightarrow> bool" where
  "schema_admits d p v =
     (case map_of (properties d) p of
        None \<Rightarrow> True
      | Some ps \<Rightarrow> (case ps_enum ps of None \<Rightarrow> True | Some vs \<Rightarrow> v \<in> set vs))"

text \<open>
  \<^verbatim>\<open>saveMemory(args: { key: string; value: string; category?: string })\<close>. The
  destructuring \<^verbatim>\<open>category = 'general'\<close> supplies the default for a missing category.
  \<open>saveMemory_try\<close> is the body of the \<^verbatim>\<open>try\<close> block, \<open>saveMemory\<close> adds the
  \<^verbatim>\<open>catch\<close> clause, which turns whatever was thrown into an error result.
\<close>

record save_args =
  sa_key :: string
  sa_value :: string
  sa_category :: "string option"

definition saveMemory_try :: "'st MemoryManager \<Rightarrow> save_args \<Rightarrow> 'st \<Rightarrow> (thrown + ToolResult) \<times> 'st" where
  "saveMemory_try mm args st =
     (let memoryKey = sa_key args; memoryValue = sa_value args;
          category = (case sa_category args of None \<Rightarrow> ''general'' | Some c \<Rightarrow> c)
      in case getInstance mm st of
           (Inl error, st1) \<Rightarrow> (Inl error, st1)
         | (Inr _, st1) \<Rightarrow>
             (case mgr_save mm memoryKey memoryValue category st1 of
                (Inl error, st2) \<Rightarrow> (Inl error, st2)
              | (Inr _, st2) \<Rightarrow>
                  (Inr (text_result (check_mark @ '' Saved: '' @ memoryKey @ newline @
                                     ''Category: '' @ category)), st2)))"

definition saveMemory :: "'st MemoryManager \<Rightarrow> save_args \<Rightarrow> 'st \<Rightarrow> (thrown + ToolResult) \<times> 'st" where
  "saveMemory mm args st =
     (case saveMemory_try mm args st of
        (Inl error, st') \<Rightarrow> (Inr (error_result error), st')
      | (Inr result, st') \<Rightarrow> (Inr result, st'))"

text \<open>
  \<^verbatim>\<open>recallMemory(args: { key: string; category?: string })\<close>; only \<^verbatim>\<open>key\<close> is
  destructured (before the \<^verbatim>\<open>try\<close> block; on an argument object that cannot throw).
  \<open>recallMemory_try\<close> is the body of the \<^verbatim>\<open>try\<close> block with its
  \<^verbatim>\<open>if (memory)\<close>, \<open>recallMemory\<close> adds the \<^verbatim>\<open>catch\<close> clause. The result is a sum
  so that an exception leaving the function would be visible as \<open>Inl\<close>.
\<close>

record recall_args =
  ra_key :: string
  ra_category :: "string option"

definition found_result :: "MemoryRecord \<Rightarrow> ToolResult" where
  "found_result memory =
     text_result (key memory @ '': '' @ rvalue memory @ newline @ ''['' @ category memory @ '']'')"

definition not_found_result :: "string \<Rightarrow> ToolResult" where
  "not_found_result recallKey =
     text_result (cross_mark @ '' Not found: '' @ [CHR 0x22] @ recallKey @ [CHR 0x22])"

definition recallMemory_try :: "'st MemoryManager \<Rightarrow> recall_args \<Rightarrow> 'st \<Rightarrow> (thrown + ToolResult) \<times> 'st" where
  "recallMemory_try mm args st =
     (let recallKey = ra_key args
      in case getInstance mm st of
           (Inl error, st1) \<Rightarrow> (Inl error, st1)
         | (Inr _, st1) \<Rightarrow>
             (case mgr_recall mm recallKey st1 of
                (Inl error, st2) \<Rightarrow> (Inl error, st2)
              | (Inr (Some memory), st2) \<Rightarrow> (Inr (found_result memory), st2)
              | (Inr None, st2) \<Rightarrow> (Inr (not_found_result recallKey), st2)))"

definition recallMemory :: "'st MemoryManager \<Rightarrow> recall_args \<Rightarrow> 'st \<Rightarrow> (thrown + ToolResult) \<times> 'st" where
  "recallMemory mm args st =
     (case recallMemory_try mm args st of
        (Inl error, st') \<Rightarrow> (Inr (error_result error), st')
      | (Inr result, st') \<Rightarrow> (Inr result, st'))"

text \<open>
  Managers to run the tools against: one that records the arguments of every \<^verbatim>\<open>save\<close>
  call, one backed by the store of the first section, one whose methods throw, and one
  whose \<^verbatim>\<open>getInstance\<close> throws.
\<close>

definition recording_manager :: "(string \<times> string \<times> string) list MemoryManager" where
  "recording_manager =
     \<lparr>getInstance = (\<lambda>calls. (Inr (), calls)),
      mgr_save = (\<lambda>k v c calls. (Inr (), calls @ [(k, v, c)])),
      mgr_recall = (\<lambda>k calls. (Inr None, calls))\<rparr>"

definition store_manager :: "time \<Rightarrow> store MemoryManager" where
  "store_manager now =
     \<lparr>getInstance = (\<lambda>s. (Inr (), s)),
      mgr_save = (\<lambda>k v c s. (Inr (), save k v c now s)),
      mgr_recall = (\<lambda>k s. (Inr (fst (recall k now s)), snd (recall k now s)))\<rparr>"

definition failing_manager :: "thrown \<Rightarrow> store MemoryManager" where
  "failing_manager e =
     \<lparr>getInstance = (\<lambda>s. (Inr (), s)),
      mgr_save = (\<lambda>k v c s. (Inl e, s)),
      mgr_recall = (\<lambda>k s. (Inl e, s))\<rparr>"

definition unavailable_manager :: "thrown \<Rightarrow> store MemoryManager" where
  "unavailable_manager e =
     \<lparr>getInstance = (\<lambda>s. (Inl e, s)),
      mgr_save = (\<lambda>k v c s. (Inl e, s)),
      mgr_recall = (\<lambda>k s. (Inl e, s))\<rparr>"

subsection \<open>Properties of the memory tools\<close>

text \<open>The three renderings, byte for byte.\<close>

lemma not_found_text:
  "not_found_result k =
     \<lparr>content = [TextContent ([CHR 0xE2, CHR 0x9C, CHR 0x97] @ '' Not found: '' @ [CHR 0x22] @ k @ [CHR 0x22])]\<rparr>"
  by (simp add: not_found_result_def text_result_def cross_mark_def)

lemma error_text:
  "error_result e =
     \<lparr>content = [TextContent ([CHR 0xE2, CHR 0x9C, CHR 0x97] @ '' Error: '' @
        (case e of JsError message \<Rightarrow> message | NonError \<Rightarrow> ''Unknown error''))]\<rparr>"
  by (simp add: error_result_def error_message_def text_result_def cross_mark_def)

lemma found_text:
  "found_result m =
     \<lparr>content = [TextContent (key m @ '': '' @ rvalue m @ [CHR 0x0A] @ ''['' @ category m @ '']'')]\<rparr>"
  by (simp add: found_result_def text_result_def newline_def)

lemma not_found_text_not_error:
  "[CHR 0xE2, CHR 0x9C, CHR 0x97] @ '' Not found: '' @ [CHR 0x22] @ k @ [CHR 0x22] \<noteq>
   [CHR 0xE2, CHR 0x9C, CHR 0x97] @ '' Error: '' @ msg"
  by simp

text \<open>
  The rendering of a hit starts with the stored key, verbatim. It can read like an "error"
  rendering, but only when the key begins with the ballot mark followed by
  \<^verbatim>\<open> Error\<close>.
\<close>

lemma hit_error_key:
  assumes "k @ '': '' @ rest = [CHR 0xE2, CHR 0x9C, CHR 0x97] @ '' Error: '' @ msg"
  shows "take 9 k = [CHR 0xE2, CHR 0x9C, CHR 0x97] @ '' Error''"
proof (cases "9 \<le> length k")
  case True
  from assms have "take 9 (k @ '': '' @ rest) = take 9 ([CHR 0xE2, CHR 0x9C, CHR 0x97] @ '' Error: '' @ msg)"
    by simp
  with True show ?thesis by simp
next
  case False
  then have n: "length k < 9" by simp
  have "(k @ '': '' @ rest) ! length k = CHR '':''"
    by (simp add: nth_append)
  with assms have "([CHR 0xE2, CHR 0x9C, CHR 0x97] @ '' Error: '' @ msg) ! length k = CHR '':''"
    by simp
  moreover have "([CHR 0xE2, CHR 0x9C, CHR 0x97] @ '' Error: '' @ msg) ! i \<noteq> CHR '':''" if "i < 9" for i
  proof -
    from that have "i \<in> {0, 1, 2, 3, 4, 5, 6, 7, 8}" by auto
    then show ?thesis by auto
  qed
  ultimately show ?thesis using n by blast
qed


text \<open>A store with one record, whose key is the ballot mark followed by \<^verbatim>\<open> Error\<close>.\<close>

definition collide_store :: store where
  "collide_store = save ([CHR 0xE2, CHR 0x9C, CHR 0x97] @ '' Error'') ''x'' ''general'' 1 empty_store"

text \<open>What \<open>recallMemory\<close> returns, by the outcome of the manager's calls.\<close>

lemma recallMemory_total: "\<exists>r st'. recallMemory mm args st = (Inr r, st')"
  by (auto simp: recallMemory_def split: prod.splits sum.splits)

lemma recallMemory_miss:
  assumes "getInstance mm st = (Inr (), st1)" "mgr_recall mm (ra_key args) st1 = (Inr None, st2)"
  shows "recallMemory mm args st = (Inr (not_found_result (ra_key args)), st2)"
  using assms by (simp add: recallMemory_def recallMemory_try_def)

lemma recallMemory_hit:
  assumes "getInstance mm st = (Inr (), st1)" "mgr_recall mm (ra_key args) st1 = (Inr (Some m), st2)"
  shows "recallMemory mm args st = (Inr (found_result m), st2)"
  using assms by (simp add: recallMemory_def recallMemory_try_def)

lemma recallMemory_fault:
  assumes "getInstance mm st = (Inr (), st1)" "mgr_recall mm (ra_key args) st1 = (Inl e, st2)"
  shows "recallMemory mm args st = (Inr (error_result e), st2)"
  using assms by (simp add: recallMemory_def recallMemory_try_def)

lemma recallMemory_unavailable:
  assumes "getInstance mm st = (Inl e, st1)"
  shows "recallMemory mm args st = (Inr (error_result e), st1)"
  using assms by (simp add: recallMemory_def recallMemory_try_def)

lemma recallMemory_error_only:
  assumes "fst (recallMemory mm args st) =
     Inr \<lparr>content = [TextContent ([CHR 0xE2, CHR 0x9C, CHR 0x97] @ '' Error: '' @ msg)]\<rparr>"
  shows "(\<exists>e st1. getInstance mm st = (Inl e, st1)) \<or>
         (\<exists>e st1 st2. getInstance mm st = (Inr (), st1) \<and>
            mgr_recall mm (ra_key args) st1 = (Inl e, st2)) \<or>
         (\<exists>m st1 st2. getInstance mm st = (Inr (), st1) \<and>
            mgr_recall mm (ra_key args) st1 = (Inr (Some m), st2) \<and>
            take 9 (key m) = [CHR 0xE2, CHR 0x9C, CHR 0x97] @ '' Error'')"
proof -
  obtain g st1 where g: "getInstance mm st = (g, st1)" by (cases "getInstance mm st")
  show ?thesis
  proof (cases g)
    case (Inl e)
    with g show ?thesis by blast
  next
    case (Inr u)
    with g have g': "getInstance mm st = (Inr (), st1)" by simp
    obtain r st2 where r: "mgr_recall mm (ra_key args) st1 = (r, st2)"
      by (cases "mgr_recall mm (ra_key args) st1")
    show ?thesis
    proof (cases r)
      case (Inl e)
      with g' r show ?thesis by blast
    next
      case (Inr found)
      show ?thesis
      proof (cases found)
        case None
        with Inr r have "mgr_recall mm (ra_key args) st1 = (Inr None, st2)" by simp
        from recallMemory_miss [OF g' this] assms
        have False by (simp add: not_found_text)
        then show ?thesis ..
      next
        case (Some m)
        with Inr r have hit: "mgr_recall mm (ra_key args) st1 = (Inr (Some m), st2)" by simp
        from recallMemory_hit [OF g' this] assms
        have "key m @ '': '' @ (rvalue m @ [CHR 0x0A] @ ''['' @ category m @ '']'') =
            [CHR 0xE2, CHR 0x9C, CHR 0x97] @ '' Error: '' @ msg"
          by (simp add: found_text)
        then have "take 9 (key m) = [CHR 0xE2, CHR 0x9C, CHR 0x97] @ '' Error''"
          by (rule hit_error_key)
        with g' hit show ?thesis by blast
      qed
    qed
  qed
qed

text \<open>
  C3 (amended). Called with an argument object, as its parameter type declares (a request
  without arguments fails in the destructuring, before the \<^verbatim>\<open>try\<close> block),
  \<open>recallMemory\<close> returns a tool result and lets no exception escape, for every manager,
  key and state. When the manager's recall finds no record, the result is the text: ballot
  mark, \<^verbatim>\<open> Not found: \<close>, the key in double quotes; no such text is an "error"
  rendering. When it finds a record, the result is \<^verbatim>\<open>key: value\<close>, a line feed and
  the category in brackets. When the storage layer throws, in \<^verbatim>\<open>getInstance\<close> or in
  \<^verbatim>\<open>recall\<close>, the result is the text: ballot mark, \<^verbatim>\<open> Error: \<close>, the message of
  the error (\<^verbatim>\<open>Unknown error\<close> for a thrown value that is not an \<^verbatim>\<open>Error\<close>). And a
  result that reads as an "error" rendering comes from such a fault, or else from a hit on
  a record whose stored key begins with the ballot mark followed by \<^verbatim>\<open> Error\<close>.
\<close>

theorem recallMemory_renderings:
  "(\<exists>r st'. recallMemory mm args st = (Inr r, st')) \<and>
   (\<forall>st1 st2. getInstance mm st = (Inr (), st1) \<and>
        mgr_recall mm (ra_key args) st1 = (Inr None, st2) \<longrightarrow>
      recallMemory mm args st =
        (Inr \<lparr>content = [TextContent ([CHR 0xE2, CHR 0x9C, CHR 0x97] @ '' Not found: '' @
                 [CHR 0x22] @ ra_key args @ [CHR 0x22])]\<rparr>, st2)) \<and>
   (\<forall>msg. [CHR 0xE2, CHR 0x9C, CHR 0x97] @ '' Not found: '' @ [CHR 0x22] @ ra_key args @ [CHR 0x22] \<noteq>
      [CHR 0xE2, CHR 0x9C, CHR 0x97] @ '' Error: '' @ msg) \<and>
   (\<forall>st1 st2 m. getInstance mm st = (Inr (), st1) \<and>
        mgr_recall mm (ra_key args) st1 = (Inr (Some m), st2) \<longrightarrow>
      recallMemory mm args st =
        (Inr \<lparr>content = [TextContent (key m @ '': '' @ rvalue m @ [CHR 0x0A] @
                 ''['' @ category m @ '']'')]\<rparr>, st2)) \<and>
   (\<forall>st1 st2 e. getInstance mm st = (Inr (), st1) \<and>
        mgr_recall mm (ra_key args) st1 = (Inl e, st2) \<longrightarrow>
      recallMemory mm args st =
        (Inr \<lparr>content = [TextContent ([CHR 0xE2, CHR 0x9C, CHR 0x97] @ '' Error: '' @
                 (case e of JsError message \<Rightarrow> message | NonError \<Rightarrow> ''Unknown error''))]\<rparr>,
         st2)) \<and>
   (\<forall>st1 e. getInstance mm st = (Inl e, st1) \<longrightarrow>
      recallMemory mm args st =
        (Inr \<lparr>content = [TextContent ([CHR 0xE2, CHR 0x9C, CHR 0x97] @ '' Error: '' @
                 (case e of JsError message \<Rightarrow> message | NonError \<Rightarrow> ''Unknown error''))]\<rparr>,
         st1)) \<and>
   (\<forall>msg. fst (recallMemory mm args st) =
        Inr \<lparr>content = [TextContent ([CHR 0xE2, CHR 0x9C, CHR 0x97] @ '' Error: '' @ msg)]\<rparr> \<longrightarrow>
      (\<exists>e st1. getInstance mm st = (Inl e, st1)) \<or>
      (\<exists>e st1 st2. getInstance mm st = (Inr (), st1) \<and>
         mgr_recall mm (ra_key args) st1 = (Inl e, st2)) \<or>
      (\<exists>m st1 st2. getInstance mm st = (Inr (), st1) \<and>
         mgr_recall mm (ra_key args) st1 = (Inr (Some m), st2) \<and>
         take 9 (key m) = [CHR 0xE2, CHR 0x9C, CHR 0x97] @ '' Error''))"
proof (intro conjI allI impI)
  show "\<exists>r st'. recallMemory mm args st = (Inr r, st')"
    by (rule recallMemory_total)
next
  fix st1 st2
  assume "getInstance mm st = (Inr (), st1) \<and> mgr_recall mm (ra_key args) st1 = (Inr None, st2)"
  then show "recallMemory mm args st =
        (Inr \<lparr>content = [TextContent ([CHR 0xE2, CHR 0x9C, CHR 0x97] @ '' Not found: '' @
                 [CHR 0x22] @ ra_key args @ [CHR 0x22])]\<rparr>, st2)"
    using recallMemory_miss [of mm st st1 args st2] by (simp add: not_found_text)
next
  fix msg
  show "[CHR 0xE2, CHR 0x9C, CHR 0x97] @ '' Not found: '' @ [CHR 0x22] @ ra_key args @ [CHR 0x22] \<noteq>
      [CHR 0xE2, CHR 0x9C, CHR 0x97] @ '' Error: '' @ msg"
    by (rule not_found_text_not_error)
next
  fix st1 st2 m
  assume "getInstance mm st = (Inr (), st1) \<and>
        mgr_recall mm (ra_key args) st1 = (Inr (Some m), st2)"
  then show "recallMemory mm args st =
        (Inr \<lparr>content = [TextContent (key m @ '': '' @ rvalue m @ [CHR 0x0A] @
                 ''['' @ category m @ '']'')]\<rparr>, st2)"
    using recallMemory_hit [of mm st st1 args m st2] by (simp add: found_text)
next
  fix st1 st2 e
  assume "getInstance mm st = (Inr (), st1) \<and> mgr_recall mm (ra_key args) st1 = (Inl e, st2)"
  then show "recallMemory mm args st =
        (Inr \<lparr>content = [TextContent ([CHR 0xE2, CHR 0x9C, CHR 0x97] @ '' Error: '' @
                 (case e of JsError message \<Rightarrow> message | NonError \<Rightarrow> ''Unknown error''))]\<rparr>,
         st2)"
    using recallMemory_fault [of mm st st1 args e st2] by (simp add: error_text)
next
  fix st1 e
  assume "getInstance mm st = (Inl e, st1)"
  then show "recallMemory mm args st =
        (Inr \<lparr>content = [TextContent ([CHR 0xE2, CHR 0x9C, CHR 0x97] @ '' Error: '' @
                 (case e of JsError message \<Rightarrow> message | NonError \<Rightarrow> ''Unknown error''))]\<rparr>,
         st1)"
    using recallMemory_unavailable [of mm st e st1 args] by (simp add: error_text)
next
  fix msg
  assume "fst (recallMemory mm args st) =
        Inr \<lparr>content = [TextContent ([CHR 0xE2, CHR 0x9C, CHR 0x97] @ '' Error: '' @ msg)]\<rparr>"
  then show "(\<exists>e st1. getInstance mm st = (Inl e, st1)) \<or>
      (\<exists>e st1 st2. getInstance mm st = (Inr (), st1) \<and>
         mgr_recall mm (ra_key args) st1 = (Inl e, st2)) \<or>
      (\<exists>m st1 st2. getInstance mm st = (Inr (), st1) \<and>
         mgr_recall mm (ra_key args) st1 = (Inr (Some m), st2) \<and>
         take 9 (key m) = [CHR 0xE2, CHR 0x9C, CHR 0x97] @ '' Error'')"
    by (rule recallMemory_error_only)
qed

text \<open>
  C3 as stated fails in its last clause: with a record stored under the key that is the
  ballot mark followed by \<^verbatim>\<open> Error\<close>, neither \<^verbatim>\<open>getInstance\<close> nor \<^verbatim>\<open>recall\<close>
  throws, and the result is, byte for byte, the "error" rendering of an \<^verbatim>\<open>Error\<close> with
  the message \<^verbatim>\<open>x\<close>, line feed, \<^verbatim>\<open>[general]\<close>.
\<close>

theorem recallMemory_hit_reads_as_error_counterexample:
  "getInstance (store_manager 4) collide_store = (Inr (), collide_store) \<and>
   fst (mgr_recall (store_manager 4) ([CHR 0xE2, CHR 0x9C, CHR 0x97] @ '' Error'') collide_store) =
     Inr (Some \<lparr>key = [CHR 0xE2, CHR 0x9C, CHR 0x97] @ '' Error'', rvalue = ''x'', category = ''general'',
                timestamp = 1, lastAccessed = 4, priority = 0\<rparr>) \<and>
   fst (recallMemory (store_manager 4)
          \<lparr>ra_key = [CHR 0xE2, CHR 0x9C, CHR 0x97] @ '' Error'', ra_category = None\<rparr> collide_store) =
     Inr \<lparr>content = [TextContent ([CHR 0xE2, CHR 0x9C, CHR 0x97] @ '' Error: x'' @ [CHR 0x0A] @ ''[general]'')]\<rparr> \<and>
   fst (recallMemory (store_manager 4)
          \<lparr>ra_key = [CHR 0xE2, CHR 0x9C, CHR 0x97] @ '' Error'', ra_category = None\<rparr> collide_store) =
     Inr (error_result (JsError (''x'' @ [CHR 0x0A] @ ''[general]'')))"
  by (simp add: recallMemory_def recallMemory_try_def store_manager_def recall_def
        collide_store_def save_def empty_store_def Let_def found_result_def error_result_def
        error_message_def text_result_def cross_mark_def newline_def)


theorem recallMemory_renderings_witness:
  "getInstance (store_manager 4) abc_store = (Inr (), abc_store) \<and>
   mgr_recall (store_manager 4) ''zz'' abc_store = (Inr None, abc_store) \<and>
   recallMemory (store_manager 4) \<lparr>ra_key = ''zz'', ra_category = None\<rparr> abc_store =
     (Inr \<lparr>content = [TextContent ([CHR 0xE2, CHR 0x9C, CHR 0x97] @ '' Not found: '' @ [CHR 0x22] @ ''zz'' @ [CHR 0x22])]\<rparr>,
      abc_store) \<and>
   fst (mgr_recall (store_manager 4) ''a'' abc_store) =
     Inr (Some \<lparr>key = ''a'', rvalue = ''x'', category = ''general'', timestamp = 1,
                lastAccessed = 4, priority = 0\<rparr>) \<and>
   fst (recallMemory (store_manager 4) \<lparr>ra_key = ''a'', ra_category = None\<rparr> abc_store) =
     Inr \<lparr>content = [TextContent (''a: x'' @ [CHR 0x0A] @ ''[general]'')]\<rparr> \<and>
   mgr_recall (failing_manager (JsError ''disk'')) ''a'' abc_store =
     (Inl (JsError ''disk''), abc_store) \<and>
   recallMemory (failing_manager (JsError ''disk'')) \<lparr>ra_key = ''a'', ra_category = None\<rparr> abc_store =
     (Inr \<lparr>content = [TextContent ([CHR 0xE2, CHR 0x9C, CHR 0x97] @ '' Error: disk'')]\<rparr>, abc_store) \<and>
   getInstance (unavailable_manager NonError) abc_store = (Inl NonError, abc_store) \<and>
   recallMemory (unavailable_manager NonError) \<lparr>ra_key = ''a'', ra_category = None\<rparr> abc_store =
     (Inr \<lparr>content = [TextContent ([CHR 0xE2, CHR 0x9C, CHR 0x97] @ '' Error: Unknown error'')]\<rparr>, abc_store) \<and>
   fst (recallMemory (store_manager 4) \<lparr>ra_key = [CHR 0xE2, CHR 0x9C, CHR 0x97] @ '' Error'', ra_category = None\<rparr>
          collide_store) =
     Inr \<lparr>content = [TextContent ([CHR 0xE2, CHR 0x9C, CHR 0x97] @ '' Error: '' @ ''x'' @ [CHR 0x0A] @ ''[general]'')]\<rparr> \<and>
   ((\<exists>e st1. getInstance (store_manager 4) collide_store = (Inl e, st1)) \<or>
    (\<exists>e st1 st2. getInstance (store_manager 4) collide_store = (Inr (), st1) \<and>
       mgr_recall (store_manager 4) ([CHR 0xE2, CHR 0x9C, CHR 0x97] @ '' Error'') st1 = (Inl e, st2)) \<or>
    (\<exists>m st1 st2. getInstance (store_manager 4) collide_store = (Inr (), st1) \<and>
       mgr_recall (store_manager 4) ([CHR 0xE2, CHR 0x9C, CHR 0x97] @ '' Error'') st1 = (Inr (Some m), st2) \<and>
       take 9 (key m) = [CHR 0xE2, CHR 0x9C, CHR 0x97] @ '' Error''))"
proof -
  have g: "getInstance (store_manager 4) abc_store = (Inr (), abc_store)"
    by (simp add: store_manager_def)
  have miss: "mgr_recall (store_manager 4) ''zz'' abc_store = (Inr None, abc_store)"
    by (simp add: store_manager_def recall_def abc_store_def save_def empty_store_def)
  obtain st2 where hit: "mgr_recall (store_manager 4) ''a'' abc_store =
      (Inr (Some \<lparr>key = ''a'', rvalue = ''x'', category = ''general'', timestamp = 1,
                  lastAccessed = 4, priority = 0\<rparr>), st2)"
    by (simp add: store_manager_def recall_def abc_store_def save_def empty_store_def Let_def)
  have gf: "getInstance (failing_manager (JsError ''disk'')) abc_store = (Inr (), abc_store)"
    by (simp add: failing_manager_def)
  have fault: "mgr_recall (failing_manager (JsError ''disk'')) ''a'' abc_store =
      (Inl (JsError ''disk''), abc_store)"
    by (simp add: failing_manager_def)
  have down: "getInstance (unavailable_manager NonError) abc_store = (Inl NonError, abc_store)"
    by (simp add: unavailable_manager_def)
  have gc: "getInstance (store_manager 4) collide_store = (Inr (), collide_store)"
    by (simp add: store_manager_def)
  obtain st3 where hitc: "mgr_recall (store_manager 4) ([CHR 0xE2, CHR 0x9C, CHR 0x97] @ '' Error'') collide_store =
      (Inr (Some \<lparr>key = [CHR 0xE2, CHR 0x9C, CHR 0x97] @ '' Error'', rvalue = ''x'', category = ''general'',
                  timestamp = 1, lastAccessed = 4, priority = 0\<rparr>), st3)"
    by (simp add: store_manager_def recall_def collide_store_def save_def empty_store_def Let_def)
  note t1 = recallMemory_renderings [of "store_manager 4"
      "\<lparr>ra_key = ''zz'', ra_category = None\<rparr>" abc_store]
  note t2 = recallMemory_renderings [of "store_manager 4"
      "\<lparr>ra_key = ''a'', ra_category = None\<rparr>" abc_store]
  note t3 = recallMemory_renderings [of "failing_manager (JsError ''disk'')"
      "\<lparr>ra_key = ''a'', ra_category = None\<rparr>" abc_store]
  note t4 = recallMemory_renderings [of "unavailable_manager NonError"
      "\<lparr>ra_key = ''a'', ra_category = None\<rparr>" abc_store]
  note t5 = recallMemory_renderings [of "store_manager 4"
      "\<lparr>ra_key = [CHR 0xE2, CHR 0x9C, CHR 0x97] @ '' Error'', ra_category = None\<rparr>" collide_store]
  have m1: "getInstance (store_manager 4) abc_store = (Inr (), abc_store) \<and>
      mgr_recall (store_manager 4) (ra_key \<lparr>ra_key = ''zz'', ra_category = None\<rparr>) abc_store =
        (Inr None, abc_store)"
    using g miss by simp
  have r1: "recallMemory (store_manager 4) \<lparr>ra_key = ''zz'', ra_category = None\<rparr> abc_store =
     (Inr \<lparr>content = [TextContent ([CHR 0xE2, CHR 0x9C, CHR 0x97] @ '' Not found: '' @ [CHR 0x22] @ ''zz'' @ [CHR 0x22])]\<rparr>,
      abc_store)"
    using t1 [THEN conjunct2, THEN conjunct1, rule_format, OF m1] by simp
  have m2: "getInstance (store_manager 4) abc_store = (Inr (), abc_store) \<and>
      mgr_recall (store_manager 4) (ra_key \<lparr>ra_key = ''a'', ra_category = None\<rparr>) abc_store =
        (Inr (Some \<lparr>key = ''a'', rvalue = ''x'', category = ''general'', timestamp = 1,
                  lastAccessed = 4, priority = 0\<rparr>), st2)"
    using g hit by simp
  have r2: "fst (recallMemory (store_manager 4) \<lparr>ra_key = ''a'', ra_category = None\<rparr> abc_store) =
     Inr \<lparr>content = [TextContent (''a: x'' @ [CHR 0x0A] @ ''[general]'')]\<rparr>"
    using t2 [THEN conjunct2, THEN conjunct2, THEN conjunct2, THEN conjunct1, rule_format, OF m2]
    by simp
  have m3: "getInstance (failing_manager (JsError ''disk'')) abc_store = (Inr (), abc_store) \<and>
      mgr_recall (failing_manager (JsError ''disk''))
        (ra_key \<lparr>ra_key = ''a'', ra_category = None\<rparr>) abc_store =
        (Inl (JsError ''disk''), abc_store)"
    using gf fault by simp
  have r3: "recallMemory (failing_manager (JsError ''disk'')) \<lparr>ra_key = ''a'', ra_category = None\<rparr> abc_store =
     (Inr \<lparr>content = [TextContent ([CHR 0xE2, CHR 0x9C, CHR 0x97] @ '' Error: disk'')]\<rparr>, abc_store)"
    using t3 [THEN conjunct2, THEN conjunct2, THEN conjunct2, THEN conjunct2, THEN conjunct1,
        rule_format, OF m3]
    by simp
  have r4: "recallMemory (unavailable_manager NonError) \<lparr>ra_key = ''a'', ra_category = None\<rparr> abc_store =
     (Inr \<lparr>content = [TextContent ([CHR 0xE2, CHR 0x9C, CHR 0x97] @ '' Error: Unknown error'')]\<rparr>, abc_store)"
    using t4 [THEN conjunct2, THEN conjunct2, THEN conjunct2, THEN conjunct2, THEN conjunct2,
        THEN conjunct1, rule_format, OF down]
    by simp
  have m5: "getInstance (store_manager 4) collide_store = (Inr (), collide_store) \<and>
      mgr_recall (store_manager 4)
        (ra_key \<lparr>ra_key = [CHR 0xE2, CHR 0x9C, CHR 0x97] @ '' Error'', ra_category = None\<rparr>) collide_store =
        (Inr (Some \<lparr>key = [CHR 0xE2, CHR 0x9C, CHR 0x97] @ '' Error'', rvalue = ''x'', category = ''general'',
                  timestamp = 1, lastAccessed = 4, priority = 0\<rparr>), st3)"
    using gc hitc by simp
  have r5: "fst (recallMemory (store_manager 4) \<lparr>ra_key = [CHR 0xE2, CHR 0x9C, CHR 0x97] @ '' Error'', ra_category = None\<rparr>
          collide_store) =
     Inr \<lparr>content = [TextContent ([CHR 0xE2, CHR 0x9C, CHR 0x97] @ '' Error: '' @ ''x'' @ [CHR 0x0A] @ ''[general]'')]\<rparr>"
    using t5 [THEN conjunct2, THEN conjunct2, THEN conjunct2, THEN conjunct1, rule_format, OF m5]
    by simp
  have r6: "(\<exists>e st1. getInstance (store_manager 4) collide_store = (Inl e, st1)) \<or>
    (\<exists>e st1 st2. getInstance (store_manager 4) collide_store = (Inr (), st1) \<and>
       mgr_recall (store_manager 4) ([CHR 0xE2, CHR 0x9C, CHR 0x97] @ '' Error'') st1 = (Inl e, st2)) \<or>
    (\<exists>m st1 st2. getInstance (store_manager 4) collide_store = (Inr (), st1) \<and>
       mgr_recall (store_manager 4) ([CHR 0xE2, CHR 0x9C, CHR 0x97] @ '' Error'') st1 = (Inr (Some m), st2) \<and>
       take 9 (key m) = [CHR 0xE2, CHR 0x9C, CHR 0x97] @ '' Error'')"
    using t5 [THEN conjunct2, THEN conjunct2, THEN conjunct2, THEN conjunct2, THEN conjunct2,
        THEN conjunct2, rule_format, OF r5]
    by simp
  have h: "fst (mgr_recall (store_manager 4) ''a'' abc_store) =
     Inr (Some \<lparr>key = ''a'', rvalue = ''x'', category = ''general'', timestamp = 1,
                lastAccessed = 4, priority = 0\<rparr>)"
    using hit by simp
  from g miss r1 h r2 fault r3 down r4 r5 r6 show ?thesis
    by (intro conjI)
qed

text \<open>
  C9. The result of \<open>recallMemory\<close>, and the state it leaves, do not depend on the
  category argument, although the input schema of \<open>recallMemoryDefinition\<close> declares a
  \<^verbatim>\<open>category\<close> property.
\<close>

theorem recallMemory_ignores_category:
  "recallMemory mm \<lparr>ra_key = k, ra_category = c1\<rparr> st =
     recallMemory mm \<lparr>ra_key = k, ra_category = c2\<rparr> st \<and>
   map_of (properties recallMemoryDefinition) ''category'' =
     Some \<lparr>ps_type = ''string'', ps_enum = None\<rparr>"
  by (simp add: recallMemory_def recallMemory_try_def recallMemoryDefinition_def)

lemma general_not_admitted: "\<not> schema_admits saveMemoryDefinition ''category'' ''general''"
  by (simp add: schema_admits_def saveMemoryDefinition_def)

lemma saveMemory_recording:
  "snd (saveMemory recording_manager args calls) =
     calls @ [(sa_key args, sa_value args,
             case sa_category args of None \<Rightarrow> ''general'' | Some c \<Rightarrow> c)]"
  by (simp add: saveMemory_def saveMemory_try_def recording_manager_def Let_def)

text \<open>
  C6 as stated fails: called without a category, \<open>saveMemory\<close> passes \<^verbatim>\<open>'general'\<close> to the store, and the
  enumeration declared for \<^verbatim>\<open>category\<close> in \<open>saveMemoryDefinition\<close> does not list it.
\<close>

theorem saveMemory_default_category_counterexample:
  "snd (saveMemory recording_manager \<lparr>sa_key = ''k'', sa_value = ''v'', sa_category = None\<rparr> []) =
     [(''k'', ''v'', ''general'')] \<and>
   \<not> schema_admits saveMemoryDefinition ''category'' ''general''"
  by (simp add: saveMemory_recording general_not_admitted)

text \<open>
  C6 (amended). The category \<open>saveMemory\<close> passes to the store is the category argument
  when there is one and \<^verbatim>\<open>'general'\<close> when it is omitted. It is admitted by the
  enumeration of \<open>saveMemoryDefinition\<close> exactly when a category argument was given and
  is one of \<^verbatim>\<open>project\<close>, \<^verbatim>\<open>personal\<close>, \<^verbatim>\<open>code\<close>, \<^verbatim>\<open>notes\<close>.
\<close>

theorem saveMemory_stored_category:
  "snd (saveMemory recording_manager args calls) =
     calls @ [(sa_key args, sa_value args,
               case sa_category args of None \<Rightarrow> ''general'' | Some c \<Rightarrow> c)] \<and>
   (schema_admits saveMemoryDefinition ''category''
       (case sa_category args of None \<Rightarrow> ''general'' | Some c \<Rightarrow> c) \<longleftrightarrow>
    (\<exists>c \<in> set [''project'', ''personal'', ''code'', ''notes'']. sa_category args = Some c))"
proof (cases "sa_category args")
  case None
  then show ?thesis
    by (simp add: saveMemory_recording general_not_admitted)
next
  case (Some c)
  then show ?thesis
    by (auto simp: saveMemory_recording schema_admits_def saveMemoryDefinition_def)
qed

theorem saveMemory_stored_category_witness:
  "snd (saveMemory recording_manager
          \<lparr>sa_key = ''k'', sa_value = ''v'', sa_category = Some ''code''\<rparr> []) =
     [(''k'', ''v'', ''code'')] \<and>
   schema_admits saveMemoryDefinition ''category'' ''code''"
  using saveMemory_stored_category
    [of "\<lparr>sa_key = ''k'', sa_value = ''v'', sa_category = Some ''code''\<rparr>" "[]"]
  by simp

section \<open>Server\<close>

text \<open>
  The dispatch of \<^verbatim>\<open>src/index.ts\<close>. What the request handlers throw: an \<^verbatim>\<open>McpError\<close>
  with a code and a message, or anything else.
\<close>

datatype ErrorCode = InvalidRequest | MethodNotFound | InternalError

datatype raised = McpError ErrorCode string | Other thrown

text \<open>
  \<^verbatim>\<open>toolHandlers\<close> is an object literal with these 35 own properties. Its prototype is
  \<^verbatim>\<open>Object.prototype\<close>, so the property read \<^verbatim>\<open>toolHandlers[name]\<close> finds an own
  property first and the members of \<^verbatim>\<open>Object.prototype\<close> next, and is
  \<^verbatim>\<open>undefined\<close> (\<open>None\<close>) for every other name.
\<close>

definition toolHandlers_keys :: "string list" where
  "toolHandlers_keys =
     [''get_current_time'', ''preview_ui_ascii'',
      ''save_memory'', ''recall_memory'', ''update_memory'', ''delete_memory'',
      ''list_memories'', ''prioritize_memory'',
      ''link_memories'', ''get_memory_graph'', ''search_memories_advanced'',
      ''create_memory_timeline'',
      ''get_session_context'',
      ''find_symbol'', ''find_references'', ''analyze_dependency_graph'',
      ''get_coding_guide'', ''apply_quality_rules'', ''validate_code_quality'',
      ''analyze_complexity'', ''check_coupling_cohesion'', ''suggest_improvements'',
      ''create_thinking_chain'', ''analyze_problem'', ''step_by_step_analysis'',
      ''format_as_plan'',
      ''generate_prd'', ''create_user_stories'', ''analyze_requirements'', ''feature_roadmap'',
      ''enhance_prompt'', ''analyze_prompt'', ''enhance_prompt_gemini'',
      ''apply_reasoning_framework'',
      ''get_usage_analytics'']"

definition Object_prototype_keys :: "string list" where
  "Object_prototype_keys =
     [''constructor'', ''__defineGetter__'', ''__defineSetter__'', ''hasOwnProperty'',
      ''__lookupGetter__'', ''__lookupSetter__'', ''isPrototypeOf'', ''propertyIsEnumerable'',
      ''toString'', ''valueOf'', ''__proto__'', ''toLocaleString'']"

datatype property_value = Registered string | Inherited string

definition toolHandlers_get :: "string \<Rightarrow> property_value option" where
  "toolHandlers_get name =
     (if name \<in> set toolHandlers_keys then Some (Registered name)
      else if name \<in> set Object_prototype_keys then Some (Inherited name)
      else None)"

text \<open>
  What \<^verbatim>\<open>handler(args)\<close> yields. A registered handler yields a tool result. An inherited
  member is called as a plain function, with \<^verbatim>\<open>this\<close> undefined (module code is strict):
  \<^verbatim>\<open>Object(args)\<close> returns \<^verbatim>\<open>args\<close>, or a new object when \<^verbatim>\<open>args\<close> is undefined;
  \<^verbatim>\<open>toString\<close> returns \<^verbatim>\<open>"[object Undefined]"\<close>; \<^verbatim>\<open>isPrototypeOf\<close> returns
  \<^verbatim>\<open>false\<close> for an argument that is not an object; every other member converts
  \<^verbatim>\<open>this\<close> to an object and throws a \<^verbatim>\<open>TypeError\<close>, and \<^verbatim>\<open>__proto__\<close> reads as an
  object that is not callable, a \<^verbatim>\<open>TypeError\<close> again. The message of a
  \<^verbatim>\<open>TypeError\<close> is the engine's; it is the parameter \<open>type_error\<close>. The arguments of a
  request are optional: \<open>None\<close> is \<^verbatim>\<open>undefined\<close>.
\<close>

datatype 'a js_value =
  Result ToolResult | ObjectOf "'a option" | JsString string | JsBoolean bool

definition call_inherited :: "(string \<Rightarrow> string) \<Rightarrow> string \<Rightarrow> 'a option \<Rightarrow> raised + 'a js_value" where
  "call_inherited type_error member args =
     (if member = ''constructor'' then Inr (ObjectOf args)
      else if member = ''toString'' then Inr (JsString ''[object Undefined]'')
      else if member = ''isPrototypeOf'' \<and> args = None then Inr (JsBoolean False)
      else Inl (Other (JsError (type_error member))))"

text \<open>
  What \<^verbatim>\<open>index.ts\<close> imports, as parameters: the array \<^verbatim>\<open>tools\<close> of imported
  definitions, the imported tool functions (by the key they are registered under), and the
  engine's \<^verbatim>\<open>TypeError\<close> messages.
\<close>

record ('a, 'st, 'd) environment =
  tools :: "'d list"
  handlers :: "string \<Rightarrow> 'a option \<Rightarrow> 'st \<Rightarrow> (raised + ToolResult) \<times> 'st"
  type_error :: "string \<Rightarrow> string"

text \<open>
  The handler of \<^verbatim>\<open>CallToolRequestSchema\<close>: \<open>callTool_try\<close> is the \<^verbatim>\<open>try\<close> block
  (\<^verbatim>\<open>if (!handler) throw new McpError(ErrorCode.MethodNotFound, ...)\<close>, then
  \<^verbatim>\<open>return await handler(args)\<close>), \<open>callTool\<close> adds the \<^verbatim>\<open>catch\<close> clause, which
  rethrows an \<^verbatim>\<open>McpError\<close> and wraps anything else as \<^verbatim>\<open>InternalError\<close>.
\<close>

definition callTool_try ::
  "('a, 'st, 'd) environment \<Rightarrow> string \<Rightarrow> 'a option \<Rightarrow> 'st \<Rightarrow> (raised + 'a js_value) \<times> 'st" where
  "callTool_try env name args st =
     (case toolHandlers_get name of
        None \<Rightarrow> (Inl (McpError MethodNotFound (''Unknown tool: '' @ name)), st)
      | Some (Registered k) \<Rightarrow>
          (case handlers env k args st of
             (Inl error, st') \<Rightarrow> (Inl error, st')
           | (Inr result, st') \<Rightarrow> (Inr (Result result), st'))
      | Some (Inherited member) \<Rightarrow> (call_inherited (type_error env) member args, st))"

definition callTool ::
  "('a, 'st, 'd) environment \<Rightarrow> string \<Rightarrow> 'a option \<Rightarrow> 'st \<Rightarrow> (raised + 'a js_value) \<times> 'st" where
  "callTool env name args st =
     (case callTool_try env name args st of
        (Inl (McpError code message), st') \<Rightarrow> (Inl (McpError code message), st')
      | (Inl (Other error), st') \<Rightarrow>
          (Inl (McpError InternalError (''Tool execution failed: '' @ error_message error)), st')
      | (Inr result, st') \<Rightarrow> (Inr result, st'))"

text \<open>
  The argument of the default export: \<^verbatim>\<open>config?: Partial<z.infer<typeof configSchema>>\<close>,
  where \<^verbatim>\<open>configSchema\<close> has a number \<^verbatim>\<open>maxMemories\<close> (between 10 and 1000, default
  100) and a boolean \<^verbatim>\<open>enableGraph\<close> (default true).
\<close>

record config =
  maxMemories :: "real option"
  enableGraph :: "bool option"

text \<open>
  The server \<^verbatim>\<open>createServer()\<close> builds: its name and version, what it lists as tools,
  prompts and resources, and its tool dispatch. (The texts of prompts and resources are
  fixed strings or read the memory manager; they are not modelled.) The default export
  evaluates \<^verbatim>\<open>void sessionId; void config;\<close> and returns \<^verbatim>\<open>createServer()\<close>.
\<close>

record ('a, 'st, 'd) Server =
  server_name :: string
  server_version :: string
  list_tools :: "'d list"
  list_prompts :: "string list"
  list_resources :: "string list"
  call_tool :: "string \<Rightarrow> 'a option \<Rightarrow> 'st \<Rightarrow> (raised + 'a js_value) \<times> 'st"

definition createServer :: "('a, 'st, 'd) environment \<Rightarrow> ('a, 'st, 'd) Server" where
  "createServer env =
     \<lparr>server_name = ''Op-AI'',
      server_version = ''3.0.0'',
      list_tools = tools env,
      list_prompts = [''code-review'', ''problem-solver'', ''project-kickoff''],
      list_resources = [''hi-ai://context/session'', ''hi-ai://guides/quality-rules'',
                        ''hi-ai://guides/naming-conventions'', ''hi-ai://info/capabilities''],
      call_tool = callTool env\<rparr>"

definition default_export ::
  "('a, 'st, 'd) environment \<Rightarrow> string \<Rightarrow> config option \<Rightarrow> ('a, 'st, 'd) Server" where
  "default_export env sessionId cfg = createServer env"

subsection \<open>Properties of the server\<close>

text \<open>
  C7. The configuration is advisory only: for any two session ids and any two
  configurations (those \<^verbatim>\<open>configSchema\<close> accepts among them, absent ones too), the
  default export produces the same server, so \<^verbatim>\<open>maxMemories\<close> affects no operation.
\<close>

theorem default_export_ignores_config:
  "default_export env sessionId1 config1 = default_export env sessionId2 config2"
  by (simp add: default_export_def)

text \<open>
  Dispatch on a registered name runs the registered handler; a name that is neither
  registered nor a member of \<^verbatim>\<open>Object.prototype\<close> is rejected with \<^verbatim>\<open>MethodNotFound\<close>.
\<close>

lemma callTool_registered:
  "name \<in> set toolHandlers_keys \<Longrightarrow>
   callTool env name args st =
     (case handlers env name args st of
        (Inl (McpError code message), st') \<Rightarrow> (Inl (McpError code message), st')
      | (Inl (Other error), st') \<Rightarrow>
          (Inl (McpError InternalError (''Tool execution failed: '' @ error_message error)), st')
      | (Inr result, st') \<Rightarrow> (Inr (Result result), st'))"
  by (simp add: callTool_def callTool_try_def toolHandlers_get_def
           split: prod.splits sum.splits raised.splits)

lemma callTool_unknown:
  "name \<notin> set toolHandlers_keys \<Longrightarrow> name \<notin> set Object_prototype_keys \<Longrightarrow>
   callTool env name args st = (Inl (McpError MethodNotFound (''Unknown tool: '' @ name)), st)"
  by (simp add: callTool_def callTool_try_def toolHandlers_get_def)

text \<open>
  No member of \<^verbatim>\<open>Object.prototype\<close> is a registered key, and a request for one is never
  rejected with \<^verbatim>\<open>MethodNotFound\<close>: the call returns a value or ends in
  \<^verbatim>\<open>InternalError\<close>.
\<close>

lemma inherited_not_registered:
  "name \<in> set Object_prototype_keys \<Longrightarrow> name \<notin> set toolHandlers_keys"
  by (auto simp: Object_prototype_keys_def toolHandlers_keys_def)

lemma call_inherited_cases:
  "(\<exists>v. call_inherited te member args = Inr v) \<or>
   (\<exists>m. call_inherited te member args = Inl (Other (JsError m)))"
  by (simp add: call_inherited_def)

lemma callTool_inherited:
  assumes "name \<in> set Object_prototype_keys"
  shows "\<forall>m. fst (callTool env name args st) \<noteq> Inl (McpError MethodNotFound m)"
proof -
  have get: "toolHandlers_get name = Some (Inherited name)"
    using assms inherited_not_registered [OF assms] by (simp add: toolHandlers_get_def)
  from call_inherited_cases [of "type_error env" name args] show ?thesis
    by (auto simp: callTool_def callTool_try_def get)
qed

text \<open>
  C8. The name \<^verbatim>\<open>constructor\<close> is not a key of \<^verbatim>\<open>toolHandlers\<close>, yet a request for it
  is not rejected with \<^verbatim>\<open>MethodNotFound\<close>: the lookup finds
  \<^verbatim>\<open>Object.prototype.constructor\<close>, the guard \<^verbatim>\<open>!handler\<close> is false, and the call
  returns \<^verbatim>\<open>Object(args)\<close> as if it were a tool result.
\<close>

theorem callTool_constructor_not_rejected:
  "''constructor'' \<notin> set toolHandlers_keys \<and>
   callTool env ''constructor'' args st = (Inr (ObjectOf args), st)"
  by (simp add: callTool_def callTool_try_def toolHandlers_get_def toolHandlers_keys_def
        Object_prototype_keys_def call_inherited_def)

section \<open>Analytics\<close>

text \<open>
  \<^verbatim>\<open>generateGraphStats\<close> (\<^verbatim>\<open>src/tools/analytics/getUsageAnalytics.ts\<close>) renders a report
  as text. Its only division is
  \<^verbatim>\<open>(graph.edges.length * 2 / graph.nodes.length).toFixed(2)\<close>, inside
  \<^verbatim>\<open>if (graph.edges.length > 0)\<close>. \<open>avgConnections\<close> is the number that line formats,
  \<open>None\<close> when the guard skips it. A JavaScript division does not throw: a zero divisor
  gives \<^verbatim>\<open>Infinity\<close>, or \<^verbatim>\<open>NaN\<close> for 0/0. The quotient of two lengths is kept exact
  (the rounding to a double is not modelled). The graph's nodes are record keys, as in
  section 3 of the specification.
\<close>

datatype js_number = Finite rat | Infinity | NaN

definition js_divide :: "nat \<Rightarrow> nat \<Rightarrow> js_number" where
  "js_divide a b =
     (if b = 0 then (if a = 0 then NaN else Infinity) else Finite (of_nat a / of_nat b))"

definition avgConnections :: "MemoryGraph \<Rightarrow> js_number option" where
  "avgConnections graph =
     (if length (edges graph) > 0
      then Some (js_divide (length (edges graph) * 2) (length (nodes graph)))
      else None)"

text \<open>
  C10. The average-connections computation never divides by zero: in a graph whose
  edges all start and end at nodes of the graph, the division is evaluated exactly when
  there is an edge, and then the graph has a node, so the quotient is the finite number
  \<open>2 * |edges| / |nodes|\<close>.
\<close>

theorem avgConnections_divisor_nonzero:
  assumes "\<forall>e \<in> set (edges graph). sourceKey e \<in> set (nodes graph) \<and> targetKey e \<in> set (nodes graph)"
  shows "(avgConnections graph \<noteq> None \<longleftrightarrow> edges graph \<noteq> []) \<and>
         (edges graph \<noteq> [] \<longrightarrow>
            length (nodes graph) \<noteq> 0 \<and>
            avgConnections graph =
              Some (Finite (of_nat (length (edges graph) * 2) / of_nat (length (nodes graph)))))"
proof -
  have "nodes graph \<noteq> []" if "edges graph \<noteq> []"
  proof -
    from that obtain e where "e \<in> set (edges graph)" by (cases "edges graph") auto
    with assms have "sourceKey e \<in> set (nodes graph)" by blast
    then show ?thesis by auto
  qed
  then show ?thesis
    by (auto simp: avgConnections_def js_divide_def)
qed

definition ab_graph :: MemoryGraph where
  "ab_graph = \<lparr>nodes = [''a'', ''b''], edges = [rel 1 ''a'' ''b'' ''related_to''],
               clusters = [[''a'', ''b'']]\<rparr>"

theorem avgConnections_divisor_nonzero_witness:
  "sourceKey (rel 1 ''a'' ''b'' ''related_to'') \<in> set (nodes ab_graph) \<and>
   targetKey (rel 1 ''a'' ''b'' ''related_to'') \<in> set (nodes ab_graph) \<and>
   edges ab_graph = [rel 1 ''a'' ''b'' ''related_to''] \<and>
   length (nodes ab_graph) = 2 \<and>
   avgConnections ab_graph = Some (Finite 1)"
proof -
  have h: "\<forall>e \<in> set (edges ab_graph). sourceKey e \<in> set (nodes ab_graph) \<and> targetKey e \<in> set (nodes ab_graph)"
    by (simp add: ab_graph_def rel_def)
  have e: "edges ab_graph = [rel 1 ''a'' ''b'' ''related_to'']" "length (nodes ab_graph) = 2"
    by (simp_all add: ab_graph_def)
  from avgConnections_divisor_nonzero [OF h] e
  have "avgConnections ab_graph = Some (Finite 1)" by simp
  with h e show ?thesis by simp
qed

end
